theory Spec2Isabelle
  imports Complex_Main
begin

section \<open>The SIP endpoint of dionaea: data model\<close>

text \<open>
  A shallow embedding of \<^verbatim>\<open>modules/python/scripts/sip/__init__.py\<close>: the classes
  \<^verbatim>\<open>User\<close>, \<^verbatim>\<open>RegistrationManager\<close>, \<^verbatim>\<open>SipCall\<close>, \<^verbatim>\<open>SipSession\<close> and
  \<^verbatim>\<open>SipServer\<close>. Objects are records, attribute assignment is record update, a method
  takes the objects it mutates and returns them updated. A Python exception is a value
  \<open>Inl e\<close>; the objects are returned beside it, because the assignments made before the
  \<^verbatim>\<open>raise\<close> stay made.
\<close>

datatype error = SipParsingError | AttributeError | IndexError | ValueError

text \<open>
  Python keeps \<^verbatim>\<open>str\<close> and \<^verbatim>\<open>bytes\<close> apart (\<^verbatim>\<open>"foobar123" != b"foobar123"\<close>), and the
  source writes the nonce once as the one and once as the other.
\<close>

datatype pystr = Str string | Bytes string

text \<open>
  \<^verbatim>\<open>rfc2617.Authentication\<close>: built from keywords for a challenge (no response), or from
  the value of an Authorization header.
\<close>

record authentication =
  auth_method :: pystr
  algorithm :: pystr
  nonce :: pystr
  auth_realm :: string
  response :: "string option"

text \<open>
  The attribute \<^verbatim>\<open>SipSession._auth\<close>. \<^verbatim>\<open>__init__\<close> stores the empty list \<^verbatim>\<open>[]\<close> there,
  \<^verbatim>\<open>handle_REGISTER\<close> compares it with \<^verbatim>\<open>None\<close> and stores \<^verbatim>\<open>Authentication\<close> objects.
\<close>

datatype auth_slot = PyNone | EmptyList | Challenge authentication

record cseq =
  seq :: int
  cseq_method :: string

record sdp_media =
  media :: string
  port :: nat

text \<open>
  A parsed request (\<^verbatim>\<open>rfc3261.Message\<close>), by what the handlers read from it. A header
  that \<^verbatim>\<open>msg.headers.get\<close> does not find is \<open>None\<close>. \<open>sip_method\<close> is the value of
  \<^verbatim>\<open>msg.method.decode("utf-8").upper()\<close>, \<open>None\<close> when that expression raises.
  \<open>h_to\<close> is the user part of the To URI, \<open>h_via\<close> the branch parameter of each Via
  header, \<open>h_authorization\<close> the first Authorization header as \<^verbatim>\<open>rfc2617.Authentication\<close>
  reads it, \<open>msg_sdp\<close> the media sections \<^verbatim>\<open>msg.sdp[b"m"]\<close> of the body.
\<close>

record message =
  sip_method :: "string option"
  h_to :: "string option"
  h_from :: "string option"
  h_call_id :: "string option"
  h_cseq :: "cseq option"
  h_via :: "string option list"
  h_authorization :: "authentication option"
  h_content_type :: "string option"
  msg_sdp :: "sdp_media list option"

text \<open>The arguments of \<^verbatim>\<open>g_sipconfig.get_sdp_by_name\<close> for the body of a 200 response.\<close>

record sdp_body =
  sdp_name :: string
  unicast_address :: string
  addrtype :: string

datatype header_value = Text string | Auth authentication

text \<open>
  \<^verbatim>\<open>msg.create_response(code)\<close>: the status code, the request it answers, the headers
  appended afterwards and the SDP body. An outbound datagram is the \<^verbatim>\<open>dumps()\<close> of such a
  response; the model keeps the response itself.
\<close>

record sip_response =
  status :: nat
  request :: message
  appended :: "(string \<times> header_value) list"
  body :: "sdp_body option"

text \<open>A user of the configuration (\<^verbatim>\<open>g_sipconfig.get_user_by_username\<close>).\<close>

record sip_user =
  username :: string
  password :: "string option"
  realm :: string
  pickup_delay_min :: int
  pickup_delay_max :: int
  sdp :: string

type_synonym sip_config = "string \<Rightarrow> string \<Rightarrow> sip_user option"

text \<open>\<^verbatim>\<open>class User\<close> and \<^verbatim>\<open>class RegistrationManager\<close>.\<close>

record reg_user =
  user_id :: string
  branch :: "string option"
  expires :: nat

type_synonym registration_manager = "string \<rightharpoonup> reg_user list"

definition User :: "string \<Rightarrow> string option \<Rightarrow> reg_user" where
  "User uid br = \<lparr>user_id = uid, branch = br, expires = 3600\<rparr>"

definition register :: "reg_user \<Rightarrow> registration_manager \<Rightarrow> registration_manager" where
  "register u users =
     (let users1 = (if user_id u \<notin> dom users then users(user_id u \<mapsto> []) else users)
      in users1(user_id u \<mapsto> the (users1 (user_id u)) @ [u]))"

text \<open>
  A \<^verbatim>\<open>pyev.Timer\<close>: \<^verbatim>\<open>set(after, 0)\<close> stores the delay, \<^verbatim>\<open>start()\<close> and \<^verbatim>\<open>stop()\<close> switch
  \<open>active\<close>.
\<close>

record timer =
  after :: rat
  active :: bool

record rtp_stream =
  rtp_local_host :: string
  rtp_remote_host :: string
  rtp_remote_port :: nat

datatype call_state =
  NO_SESSION | SESSION_SETUP | ACTIVE_SESSION | SESSION_TEARDOWN | INVITE
  | INVITE_TRYING | INVITE_RINGING | INVITE_CANCEL | CALL

record sip_call =
  state :: call_state
  remote_address :: string
  remote_sip_port :: nat
  remote_rtp_port :: nat
  msg :: message
  call_id :: string
  rtp :: "rtp_stream option"
  user :: "sip_user option"
  invite_handler :: timer
  invite_handler_data :: "message option"

datatype bientry = In string | Out sip_response

text \<open>
  A \<^verbatim>\<open>SipSession\<close>. \<open>sent\<close> lists what the session handed to \<^verbatim>\<open>self.server.send\<close>, in
  order: the datagrams the peer receives.
\<close>

record sip_session =
  local_host :: string
  local_port :: nat
  remote_host :: string
  remote_port :: nat
  personality :: string
  callids :: "string \<rightharpoonup> sip_call"
  bistream :: "bientry list"
  auth :: auth_slot
  sent :: "sip_response list"

section \<open>Collaborators\<close>

text \<open>
  \<^verbatim>\<open>random.randint(a, b)\<close> of the Python standard library: \<^verbatim>\<open>ValueError\<close> on an empty
  range, otherwise \<open>a\<close> plus a number below the width \<open>b - a + 1\<close>. \<open>r\<close> is the raw draw
  of the random source.
\<close>

definition randint :: "nat \<Rightarrow> int \<Rightarrow> int \<Rightarrow> error + int" where
  "randint r a b =
     (if b < a then Inl ValueError else Inr (a + int (r mod nat (b - a + 1))))"

text \<open>
  Modelled from the spec: \<^verbatim>\<open>rfc2617.Authentication.check\<close> is not among the sources.
  The spec gives \<^verbatim>\<open>verify(challenge, username, credential, method, response) -> bool\<close>,
  ``computing the expected digest from username/realm/credential/method/nonce and
  comparing to the supplied response''. The hash \<open>H\<close> is a parameter.
\<close>

type_synonym digest = "string \<Rightarrow> string \<Rightarrow> string \<Rightarrow> string \<Rightarrow> pystr \<Rightarrow> string"

type_synonym checker =
  "authentication \<Rightarrow> string \<Rightarrow> string \<Rightarrow> string \<Rightarrow> authentication \<Rightarrow> bool"

definition check :: "digest \<Rightarrow> checker" where
  "check H self uname pw meth a =
     (response a = Some (H uname (auth_realm self) pw meth (nonce self)))"

text \<open>A digest to run concrete requests with: the fields joined by colons.\<close>

definition colon_digest :: digest where
  "colon_digest uname rlm pw meth n =
     uname @ '':'' @ rlm @ '':'' @ pw @ '':'' @ meth @ '':''
       @ (case n of Str x \<Rightarrow> x | Bytes x \<Rightarrow> x)"

section \<open>SipCall\<close>

definition create_response :: "message \<Rightarrow> nat \<Rightarrow> sip_response" where
  "create_response m c = \<lparr>status = c, request = m, appended = [], body = None\<rparr>"

text \<open>\<^verbatim>\<open>SipSession.send\<close>: feed the bistream, then send through the server's connection.\<close>

definition send :: "sip_response \<Rightarrow> sip_session \<Rightarrow> sip_session" where
  "send r s = s\<lparr>bistream := bistream s @ [Out r], sent := sent s @ [r]\<rparr>"

text \<open>
  \<^verbatim>\<open>SipCall.__init__\<close>. \<^verbatim>\<open>headers.get(b"call-id").value\<close> and
  \<^verbatim>\<open>headers.get(b"to").get_raw()\<close> raise \<^verbatim>\<open>AttributeError\<close> on a missing header.
\<close>

definition SipCall_init ::
  "sip_config \<Rightarrow> sip_session \<Rightarrow> string \<times> nat \<Rightarrow> nat \<Rightarrow> message \<Rightarrow> error + sip_call" where
  "SipCall_init cfg session conInfo rtpPort invite_message =
     (case h_call_id invite_message of
        None \<Rightarrow> Inl AttributeError
      | Some cid \<Rightarrow>
          (case h_to invite_message of
             None \<Rightarrow> Inl AttributeError
           | Some usr \<Rightarrow>
               Inr \<lparr>state = SESSION_SETUP,
                    remote_address = fst conInfo,
                    remote_sip_port = snd conInfo,
                    remote_rtp_port = rtpPort,
                    msg = invite_message,
                    call_id = cid,
                    rtp = None,
                    user = cfg (personality session) usr,
                    invite_handler = \<lparr>after = 5, active = False\<rparr>,
                    invite_handler_data = None\<rparr>))"

text \<open>
  \<^verbatim>\<open>SipCall.__handle_invite\<close>, the callback of the timer \<^verbatim>\<open>invite_handler\<close>. It works on
  the call and, through \<^verbatim>\<open>self.send\<close>, on the session.
\<close>

definition handle_invite ::
  "nat \<Rightarrow> sip_call \<times> sip_session \<Rightarrow> (error + unit) \<times> sip_call \<times> sip_session" where
  "handle_invite r cs =
     (let c = fst cs; s = snd cs in
      if state c = INVITE then
        (case user c of
           None \<Rightarrow> (Inr (), c\<lparr>state := NO_SESSION\<rparr>, send (create_response (msg c) 404) s)
         | Some u \<Rightarrow>
             (Inr (),
              c\<lparr>state := INVITE_TRYING, invite_handler := \<lparr>after = 1, active = True\<rparr>\<rparr>,
              send (create_response (msg c) 100) s))
      else if state c = INVITE_TRYING then
        (let s1 = send (create_response (msg c) 180) s in
         case user c of
           None \<Rightarrow> (Inl AttributeError, c, s1)
         | Some u \<Rightarrow>
             (case randint r (pickup_delay_min u) (pickup_delay_max u) of
                Inl e \<Rightarrow> (Inl e, c, s1)
              | Inr delay \<Rightarrow>
                  (Inr (),
                   c\<lparr>state := INVITE_RINGING,
                     invite_handler := \<lparr>after = of_int delay, active = True\<rparr>\<rparr>,
                   s1)))
      else if state c = INVITE_RINGING then
        (let c1 = c\<lparr>rtp := Some \<lparr>rtp_local_host = local_host s,
                                  rtp_remote_host = remote_address c,
                                  rtp_remote_port = remote_rtp_port c\<rparr>\<rparr> in
         case user c of
           None \<Rightarrow> (Inl AttributeError, c1, s)
         | Some u \<Rightarrow>
             (Inr (),
              c1\<lparr>state := CALL\<rparr>,
              send ((create_response (msg c) 200)
                      \<lparr>body := Some \<lparr>sdp_name = sdp u, unicast_address = local_host s,
                                     addrtype = ''IP4''\<rparr>\<rparr>) s))
      else (Inr (), c, s))"

text \<open>
  The event loop: when the one-shot timer \<^verbatim>\<open>invite_handler\<close> is active and its delay has
  passed, it is no longer active and its callback runs; a stopped timer never fires.
\<close>

definition timer_expires ::
  "nat \<Rightarrow> sip_call \<times> sip_session \<Rightarrow> (error + unit) \<times> sip_call \<times> sip_session" where
  "timer_expires r cs =
     (let c = fst cs; s = snd cs in
      if active (invite_handler c)
      then handle_invite r (c\<lparr>invite_handler := (invite_handler c)\<lparr>active := False\<rparr>\<rparr>, s)
      else (Inr (), c, s))"

text \<open>
  \<^verbatim>\<open>SipCall.close\<close>: leave the session's dictionary, close the RTP stream, stop the timer.
\<close>

definition SipCall_close :: "sip_call \<times> sip_session \<Rightarrow> sip_call \<times> sip_session" where
  "SipCall_close cs =
     (let c = fst cs; s = snd cs in
      (c\<lparr>rtp := None, invite_handler := (invite_handler c)\<lparr>active := False\<rparr>\<rparr>,
       s\<lparr>callids := (callids s)(call_id c := None)\<rparr>))"

definition SipCall_handle_INVITE :: "message \<Rightarrow> sip_call \<Rightarrow> sip_call" where
  "SipCall_handle_INVITE m c =
     c\<lparr>state := INVITE,
       invite_handler := \<lparr>after = 1 / 10, active = True\<rparr>,
       invite_handler_data := Some m\<rparr>"

definition SipCall_handle_ACK ::
  "message \<Rightarrow> sip_call \<times> sip_session \<Rightarrow> (error + unit) \<times> sip_call \<times> sip_session" where
  "SipCall_handle_ACK msg_ack cs =
     (let c = fst cs; s = snd cs in
      if state c \<noteq> INVITE_CANCEL then (Inr (), c, s)
      else
        (case h_cseq (msg c) of
           None \<Rightarrow> (Inl AttributeError, c, s)
         | Some cseq \<Rightarrow>
             (case h_cseq msg_ack of
                None \<Rightarrow> (Inl AttributeError, c, s)
              | Some cseq_ack \<Rightarrow>
                  if seq cseq \<noteq> seq cseq_ack then (Inr (), c, s)
                  else (Inr (), SipCall_close (c, s)))))"

definition SipCall_handle_CANCEL ::
  "message \<Rightarrow> sip_call \<times> sip_session \<Rightarrow> (error + unit) \<times> sip_call \<times> sip_session" where
  "SipCall_handle_CANCEL msg_cancel cs =
     (let c = fst cs; s = snd cs in
      if \<not> (state c = INVITE \<or> state c = INVITE_TRYING \<or> state c = INVITE_RINGING)
      then (Inr (), c, s)
      else
        (case h_cseq (msg c) of
           None \<Rightarrow> (Inl AttributeError, c, s)
         | Some cseq \<Rightarrow>
             (case h_cseq msg_cancel of
                None \<Rightarrow> (Inl AttributeError, c, s)
              | Some cseq_cancel \<Rightarrow>
                  if seq cseq \<noteq> seq cseq_cancel then (Inr (), c, s)
                  else
                    (Inr (),
                     c\<lparr>state := INVITE_CANCEL,
                       invite_handler := (invite_handler c)\<lparr>active := False\<rparr>\<rparr>,
                     send (create_response msg_cancel 200)
                       (send (create_response (msg c) 487) s)))))"

definition SipCall_handle_BYE ::
  "message \<Rightarrow> sip_call \<times> sip_session \<Rightarrow> (error + unit) \<times> sip_call \<times> sip_session" where
  "SipCall_handle_BYE msg_bye cs =
     (let c = fst cs; s = snd cs in
      if state c \<noteq> INVITE_CANCEL then (Inr (), c, s)
      else (Inr (), SipCall_close (c, send (create_response msg_bye 200) s)))"

section \<open>SipSession\<close>

type_synonym sessionkey = "string \<times> nat \<times> string \<times> nat"

definition SipSession_init :: "(string \<Rightarrow> string) \<Rightarrow> sessionkey \<Rightarrow> sip_session" where
  "SipSession_init get_personality_by_address key =
     (case key of
        (lh, lp, rh, rp) \<Rightarrow>
          \<lparr>local_host = lh, local_port = lp, remote_host = rh, remote_port = rp,
           personality = get_personality_by_address lh,
           callids = Map.empty, bistream = [], auth = EmptyList, sent = []\<rparr>)"

text \<open>
  The session calls a method of the call object its dictionary holds; the object is
  changed in place, so the key maps to the changed call afterwards, unless the method
  (through \<^verbatim>\<open>close\<close>) deleted the key.
\<close>

definition in_place ::
  "string \<Rightarrow> (error + unit) \<times> sip_call \<times> sip_session \<Rightarrow> (error + unit) \<times> sip_session" where
  "in_place cid res =
     (let c = fst (snd res); s = snd (snd res) in
      (fst res,
       case callids s cid of
         None \<Rightarrow> s
       | Some old \<Rightarrow> s\<lparr>callids := (callids s)(cid \<mapsto> c)\<rparr>))"

definition handle_unknown :: "message \<Rightarrow> sip_session \<Rightarrow> (error + unit) \<times> sip_session" where
  "handle_unknown m s = (Inr (), send (create_response m 501) s)"

definition handle_ACK :: "message \<Rightarrow> sip_session \<Rightarrow> (error + unit) \<times> sip_session" where
  "handle_ACK m s =
     (case h_call_id m of
        None \<Rightarrow> (Inl AttributeError, s)
      | Some cid \<Rightarrow>
          (case callids s cid of
             None \<Rightarrow> (Inr (), s)
           | Some c \<Rightarrow> in_place cid (SipCall_handle_ACK m (c, s))))"

definition handle_BYE :: "message \<Rightarrow> sip_session \<Rightarrow> (error + unit) \<times> sip_session" where
  "handle_BYE m s =
     (case h_call_id m of
        None \<Rightarrow> (Inl AttributeError, s)
      | Some cid \<Rightarrow>
          (case callids s cid of
             None \<Rightarrow> (Inr (), s)
           | Some c \<Rightarrow> in_place cid (SipCall_handle_BYE m (c, s))))"

definition handle_CANCEL :: "message \<Rightarrow> sip_session \<Rightarrow> (error + unit) \<times> sip_session" where
  "handle_CANCEL m s =
     (case h_call_id m of
        None \<Rightarrow> (Inl AttributeError, s)
      | Some cid \<Rightarrow>
          (case h_cseq m of
             None \<Rightarrow> (Inl AttributeError, s)
           | Some cseq \<Rightarrow>
               (case callids s cid of
                  None \<Rightarrow> (Inr (), s)
                | Some c \<Rightarrow> in_place cid (SipCall_handle_CANCEL m (c, s)))))"

text \<open>\<^verbatim>\<open>bytes.lower()\<close>: the ASCII capitals only.\<close>

definition lower_char :: "char \<Rightarrow> char" where
  "lower_char c =
     (case map_of (zip ''ABCDEFGHIJKLMNOPQRSTUVWXYZ'' ''abcdefghijklmnopqrstuvwxyz'') c of
        None \<Rightarrow> c
      | Some l \<Rightarrow> l)"

definition lower :: "string \<Rightarrow> string" where
  "lower xs = map lower_char xs"

text \<open>The loop over \<^verbatim>\<open>medias\<close> that keeps the first audio section.\<close>

fun first_audio :: "sdp_media list \<Rightarrow> sdp_media option" where
  "first_audio [] = None"
| "first_audio (m # ms) = (if lower (media m) = ''audio'' then Some m else first_audio ms)"

definition handle_INVITE ::
  "sip_config \<Rightarrow> message \<Rightarrow> sip_session \<Rightarrow> (error + unit) \<times> sip_session" where
  "handle_INVITE cfg m s =
     (case h_content_type m of
        None \<Rightarrow> (Inr (), s)
      | Some ct \<Rightarrow>
          if lower ct \<noteq> ''application/sdp'' then (Inr (), s)
          else
            (case msg_sdp m of
               None \<Rightarrow> (Inr (), s)
             | Some medias \<Rightarrow>
                 if length medias < 1 then (Inr (), s)
                 else
                   (case first_audio medias of
                      None \<Rightarrow> (Inr (), s)
                    | Some audio \<Rightarrow>
                        (case h_call_id m of
                           None \<Rightarrow> (Inl AttributeError, s)
                         | Some cid \<Rightarrow>
                             if cid \<in> dom (callids s) then (Inr (), s)
                             else
                               (case SipCall_init cfg s (remote_host s, remote_port s)
                                       (port audio) m of
                                  Inl e \<Rightarrow> (Inl e, s)
                                | Inr new_call \<Rightarrow>
                                    (Inr (),
                                     s\<lparr>callids := (callids s)
                                         (cid \<mapsto> SipCall_handle_INVITE m new_call)\<rparr>))))))"

definition handle_OPTIONS :: "message \<Rightarrow> sip_session \<Rightarrow> (error + unit) \<times> sip_session" where
  "handle_OPTIONS m s =
     (Inr (),
      send ((create_response m 200)
              \<lparr>appended := [(''Allow'', Text ''INVITE, ACK, CANCEL, OPTIONS, BYE''),
                            (''Accept'', Text ''application/sdp''),
                            (''Accept-Language'', Text ''en'')]\<rparr>) s)"

text \<open>
  The block \<^verbatim>\<open>handle_REGISTER\<close> holds twice: store a new digest challenge for the user's
  realm on the session and answer 401 with it. The two copies differ in the nonce
  literal, \<^verbatim>\<open>"foobar123"\<close> and \<^verbatim>\<open>b"foobar123"\<close>.
\<close>

definition unauthorized :: "pystr \<Rightarrow> sip_user \<Rightarrow> message \<Rightarrow> sip_session \<Rightarrow> sip_session" where
  "unauthorized n u m s =
     (let a = \<lparr>auth_method = Str ''digest'', algorithm = Str ''md5'', nonce = n,
                auth_realm = realm u, response = None\<rparr>
      in send ((create_response m 401)\<lparr>appended := [(''www-authenticate'', Auth a)]\<rparr>)
           (s\<lparr>auth := Challenge a\<rparr>))"

text \<open>
  \<^verbatim>\<open>SipSession.handle_REGISTER\<close>, on the session and the module's \<^verbatim>\<open>reg_manager\<close>.
  \<^verbatim>\<open>vias[-1]\<close> raises \<^verbatim>\<open>IndexError\<close> without a Via header, \<^verbatim>\<open>u.password\<close> raises
  \<^verbatim>\<open>AttributeError\<close> when the configuration has no such user, and so does
  \<^verbatim>\<open>self._auth.check\<close> when \<^verbatim>\<open>self._auth\<close> is a list.
\<close>

definition handle_REGISTER ::
  "sip_config \<Rightarrow> checker \<Rightarrow> message \<Rightarrow> sip_session \<times> registration_manager
     \<Rightarrow> (error + unit) \<times> sip_session \<times> registration_manager" where
  "handle_REGISTER cfg chk m w =
     (let s = fst w; reg = snd w in
      if h_to m = None \<or> h_from m = None \<or> h_call_id m = None \<or> h_cseq m = None
      then (Inr (), s, reg)
      else if h_via m = [] then (Inl IndexError, s, reg)
      else
        (case cfg (personality s) (the (h_to m)) of
           None \<Rightarrow> (Inl AttributeError, s, reg)
         | Some u \<Rightarrow>
             (let ok = (Inr (), send (create_response m 200) s,
                        register (User (the (h_to m)) (last (h_via m))) reg)
              in
              if password u \<noteq> None then
                (case h_authorization m of
                   None \<Rightarrow> (Inr (), unauthorized (Str ''foobar123'') u m s, reg)
                 | Some auth_response \<Rightarrow>
                     (case auth s of
                        PyNone \<Rightarrow> (Inr (), unauthorized (Str ''foobar123'') u m s, reg)
                      | EmptyList \<Rightarrow> (Inl AttributeError, s, reg)
                      | Challenge a \<Rightarrow>
                          if chk a (username u) ''test'' ''REGISTER'' auth_response = False
                          then (Inr (), unauthorized (Bytes ''foobar123'') u m s, reg)
                          else ok))
              else ok)))"

text \<open>
  \<^verbatim>\<open>SipSession.handle_io_in\<close>. \<open>parse\<close> is \<^verbatim>\<open>rfc3261.Message(data)\<close>, which is not among
  the sources: it gives a request or raises. The call stands before the \<^verbatim>\<open>try\<close> of the
  method, so what it raises leaves \<^verbatim>\<open>handle_io_in\<close>. \<^verbatim>\<open>getattr\<close> finds a handler for the
  six names below and for no other upper-case name.
\<close>

definition handle_io_in ::
  "(string \<Rightarrow> error + message) \<Rightarrow> sip_config \<Rightarrow> checker \<Rightarrow> string
     \<Rightarrow> sip_session \<times> registration_manager
     \<Rightarrow> (error + nat) \<times> sip_session \<times> registration_manager" where
  "handle_io_in parse cfg chk data w =
     (let s = (fst w)\<lparr>bistream := bistream (fst w) @ [In data]\<rparr>; reg = snd w in
      case parse data of
        Inl e \<Rightarrow> (Inl e, s, reg)
      | Inr m \<Rightarrow>
          (let on_session = (\<lambda>res. (fst res, snd res, reg));
               res =
                 (if sip_method m = Some ''ACK'' then on_session (handle_ACK m s)
                  else if sip_method m = Some ''BYE'' then on_session (handle_BYE m s)
                  else if sip_method m = Some ''CANCEL'' then on_session (handle_CANCEL m s)
                  else if sip_method m = Some ''INVITE'' then on_session (handle_INVITE cfg m s)
                  else if sip_method m = Some ''OPTIONS'' then on_session (handle_OPTIONS m s)
                  else if sip_method m = Some ''REGISTER'' then handle_REGISTER cfg chk m (s, reg)
                  else on_session (handle_unknown m s))
           in case fst res of
                Inl e \<Rightarrow> (Inl e, snd res)
              | Inr u \<Rightarrow> (Inr (length data), snd res)))"

section \<open>SipServer\<close>

text \<open>
  \<^verbatim>\<open>SipServer.handle_io_in\<close>: find or create the session of the datagram's addresses and
  hand it the data. \<open>key\<close> is \<^verbatim>\<open>(local.host, local.port, remote.host, remote.port)\<close>.
\<close>

definition SipServer_handle_io_in ::
  "(string \<Rightarrow> string) \<Rightarrow> (string \<Rightarrow> error + message) \<Rightarrow> sip_config \<Rightarrow> checker
     \<Rightarrow> sessionkey \<Rightarrow> string
     \<Rightarrow> (sessionkey \<rightharpoonup> sip_session) \<times> registration_manager
     \<Rightarrow> (error + nat) \<times> (sessionkey \<rightharpoonup> sip_session) \<times> registration_manager" where
  "SipServer_handle_io_in pers parse cfg chk key data w =
     (let sessions = (case fst w key of
                        None \<Rightarrow> (fst w)(key \<mapsto> SipSession_init pers key)
                      | Some s \<Rightarrow> fst w);
          res = handle_io_in parse cfg chk data (the (sessions key), snd w);
          sessions1 = sessions(key \<mapsto> fst (snd res))
      in case fst res of
           Inl e \<Rightarrow> (Inl e, sessions1, snd (snd res))
         | Inr n \<Rightarrow> (Inr (length data), sessions1, snd (snd res)))"

section \<open>Runs and concrete requests\<close>

text \<open>The call and the session after the timer \<^verbatim>\<open>invite_handler\<close> has expired once.\<close>

definition fired :: "nat \<Rightarrow> sip_call \<times> sip_session \<Rightarrow> sip_call \<times> sip_session" where
  "fired r cs = snd (timer_expires r cs)"

text \<open>The nonce of the challenge the session holds.\<close>

definition stored_nonce :: "sip_session \<Rightarrow> pystr option" where
  "stored_nonce s =
     (case auth s of Challenge a \<Rightarrow> Some (nonce a) | PyNone \<Rightarrow> None | EmptyList \<Rightarrow> None)"

text \<open>
  One configured user with a password, the requests of one peer for that user, and the
  session the server creates for the peer's first datagram.
\<close>

definition alice :: sip_user where
  "alice = \<lparr>username = ''alice'', password = Some ''secret'', realm = ''example.org'',
            pickup_delay_min = 2, pickup_delay_max = 5, sdp = ''default''\<rparr>"

definition one_user :: sip_config where
  "one_user p n = (if n = ''alice'' then Some alice else None)"

definition request_for_alice :: "string \<Rightarrow> int \<Rightarrow> message" where
  "request_for_alice meth n =
     \<lparr>sip_method = Some meth, h_to = Some ''alice'', h_from = Some ''bob'',
      h_call_id = Some ''call-1'', h_cseq = Some \<lparr>seq = n, cseq_method = meth\<rparr>,
      h_via = [Some ''z9hG4bK-1''], h_authorization = None, h_content_type = None,
      msg_sdp = None\<rparr>"

definition register_request :: "authentication option \<Rightarrow> message" where
  "register_request a = (request_for_alice ''REGISTER'' 1)\<lparr>h_authorization := a\<rparr>"

text \<open>
  The Authorization header of a client that answers the challenge \<open>first_challenge\<close>
  with the password \<open>pw\<close>.
\<close>

definition first_challenge :: authentication where
  "first_challenge =
     \<lparr>auth_method = Str ''digest'', algorithm = Str ''md5'', nonce = Str ''foobar123'',
      auth_realm = ''example.org'', response = None\<rparr>"

definition answer_with :: "string \<Rightarrow> authentication" where
  "answer_with pw =
     \<lparr>auth_method = Str ''digest'', algorithm = Str ''md5'', nonce = Str ''foobar123'',
      auth_realm = ''example.org'',
      response = Some (colon_digest ''alice'' ''example.org'' pw ''REGISTER'' (Str ''foobar123''))\<rparr>"

definition fresh_session :: sip_session where
  "fresh_session = SipSession_init (\<lambda>a. ''default'') (''10.0.0.1'', 5060, ''10.0.0.2'', 5062)"

text \<open>A sequence of REGISTER requests, handled one after the other.\<close>

definition registers ::
  "message list \<Rightarrow> sip_session \<times> registration_manager
     \<Rightarrow> sip_session \<times> registration_manager" where
  "registers ms w = fold (\<lambda>m w. snd (handle_REGISTER one_user (check colon_digest) m w)) ms w"

definition invite_request :: message where
  "invite_request =
     (request_for_alice ''INVITE'' 1)
       \<lparr>h_content_type := Some ''Application/SDP'',
        msg_sdp := Some [\<lparr>media = ''video'', port = 4002\<rparr>, \<lparr>media = ''Audio'', port = 4000\<rparr>]\<rparr>"

text \<open>The call \<^verbatim>\<open>SipCall.__init__\<close> builds for \<open>invite_request\<close>, and a session that holds a call.\<close>

definition new_call :: sip_call where
  "new_call =
     \<lparr>state = SESSION_SETUP, remote_address = ''10.0.0.2'', remote_sip_port = 5062,
      remote_rtp_port = 4000, msg = invite_request, call_id = ''call-1'', rtp = None,
      user = Some alice, invite_handler = \<lparr>after = 5, active = False\<rparr>,
      invite_handler_data = None\<rparr>"

definition session_with :: "sip_call \<Rightarrow> sip_session" where
  "session_with c = fresh_session\<lparr>callids := [''call-1'' \<mapsto> c]\<rparr>"




text \<open>
  Every call the dictionary holds is stored under its own Call-ID.
\<close>

definition keyed :: "sip_session \<Rightarrow> bool" where
  "keyed s = (\<forall>k d. callids s k = Some d \<longrightarrow> call_id d = k)"

section \<open>Facts about the collaborators and the concrete requests\<close>

lemma create_response_status: "status (create_response m c) = c"
  by (simp add: create_response_def)

text \<open>
  \<^verbatim>\<open>randint\<close> keeps to its range, and returns whenever the range is not empty.
\<close>

lemma randint_range:
  assumes "randint r a b = Inr d"
  shows "a \<le> d \<and> d \<le> b"
proof -
  from assms have ab: "a \<le> b" and d: "d = a + int (r mod nat (b - a + 1))"
    by (auto simp: randint_def split: if_splits)
  have "r mod nat (b - a + 1) < nat (b - a + 1)" using ab by simp
  then show ?thesis using ab d by linarith
qed


lemma unauthorized_effect:
  "auth (unauthorized n u m s) =
     Challenge \<lparr>auth_method = Str ''digest'', algorithm = Str ''md5'', nonce = n,
                auth_realm = realm u, response = None\<rparr>
   \<and> sent (unauthorized n u m s) =
       sent s @ [(create_response m 401)\<lparr>appended := [(''www-authenticate'',
          Auth \<lparr>auth_method = Str ''digest'', algorithm = Str ''md5'', nonce = n,
                auth_realm = realm u, response = None\<rparr>)]\<rparr>]
   \<and> callids (unauthorized n u m s) = callids s"
  by (simp add: unauthorized_def send_def Let_def)

lemma unauthorized_personality: "personality (unauthorized n u m s) = personality s"
  by (simp add: unauthorized_def send_def Let_def)

lemma register_request_headers:
  "h_to (register_request a) = Some ''alice''" "h_from (register_request a) \<noteq> None"
  "h_call_id (register_request a) \<noteq> None" "h_cseq (register_request a) \<noteq> None"
  "h_via (register_request a) \<noteq> []" "h_authorization (register_request a) = a"
  by (simp_all add: register_request_def request_for_alice_def)

lemma alice_configured:
  "one_user p ''alice'' = Some alice" "password alice = Some ''secret''" "username alice = ''alice''"
  "realm alice = ''example.org''"
  by (simp_all add: one_user_def alice_def)

lemma fresh_session_fields:
  "sent fresh_session = []" "bistream fresh_session = []" "auth fresh_session = EmptyList"
  "callids fresh_session = Map.empty" "remote_host fresh_session = ''10.0.0.2''"
  "remote_port fresh_session = 5062" "personality fresh_session = ''default''"
  by (simp_all add: fresh_session_def SipSession_init_def)

lemma invite_request_fields:
  "h_content_type invite_request = Some ''Application/SDP''"
  "msg_sdp invite_request = Some [\<lparr>media = ''video'', port = 4002\<rparr>, \<lparr>media = ''Audio'', port = 4000\<rparr>]"
  "h_call_id invite_request = Some ''call-1''"
  "sip_method invite_request = Some ''INVITE''"
  "h_cseq invite_request = Some \<lparr>seq = 1, cseq_method = ''INVITE''\<rparr>"
  by (simp_all add: invite_request_def request_for_alice_def)

lemma lower_examples:
  "lower ''Application/SDP'' = ''application/sdp''"
  "lower ''video'' = ''video''"
  "lower ''Audio'' = ''audio''"
  by (simp_all add: lower_def lower_char_def)

lemma new_call_init:
  "SipCall_init one_user fresh_session (''10.0.0.2'', 5062) 4000 invite_request = Inr new_call"
  by (simp add: SipCall_init_def invite_request_def request_for_alice_def new_call_def
        one_user_def)


text \<open>
  The first INVITE of a call on a new session: the call enters the dictionary in state
  \<open>INVITE\<close>, with its timer started.
\<close>

lemma invite_on_fresh_session:
  "handle_INVITE one_user invite_request fresh_session =
     (Inr (), session_with (SipCall_handle_INVITE invite_request new_call))"
  by (simp add: handle_INVITE_def session_with_def fresh_session_fields new_call_init
        invite_request_fields lower_examples)

section \<open>Call transactions\<close>

subsection \<open>One expiry of the timer\<close>







text \<open>
  Whatever the state, the random draw and the configured user, one expiry leaves the
  state alone or moves it one step along INVITE, INVITE_TRYING, INVITE_RINGING, CALL
  (or from INVITE to NO_SESSION).
\<close>

lemma fired_state_step:
  "state (fst (fired r (c, s))) = state c
   \<or> (state c = INVITE \<and> state (fst (fired r (c, s))) \<in> {INVITE_TRYING, NO_SESSION})
   \<or> (state c = INVITE_TRYING \<and> state (fst (fired r (c, s))) = INVITE_RINGING)
   \<or> (state c = INVITE_RINGING \<and> state (fst (fired r (c, s))) = CALL)"
  by (auto simp: fired_def timer_expires_def handle_invite_def Let_def
           split: option.splits sum.splits)

text \<open>
  From INVITE_TRYING the callback reaches INVITE_RINGING whenever the user's window is
  not empty.
\<close>

lemma trying_advances:
  assumes "state c = INVITE_TRYING" and "user c = Some u"
    and "pickup_delay_min u \<le> pickup_delay_max u"
  shows "fst (handle_invite r (c, s)) = Inr ()
       \<and> state (fst (snd (handle_invite r (c, s)))) = INVITE_RINGING"
  using assms by (simp add: handle_invite_def randint_def)

subsection \<open>The call is answered after 100, 180 and 200\<close>




subsection \<open>The pickup delay\<close>

text \<open>
  Claim C9. When the callback takes a call from INVITE_TRYING to INVITE_RINGING, the
  delay it arms the timer with lies between the user's \<^verbatim>\<open>pickup_delay_min\<close> and
  \<^verbatim>\<open>pickup_delay_max\<close>, both included, for every draw \<open>r\<close> of the random source; the
  timer is started, and 180 is the one response sent.
\<close>

theorem C9_pickup_delay_in_window:
  assumes "state c = INVITE_TRYING" and "user c = Some u"
    and "state (fst (snd (handle_invite r (c, s)))) = INVITE_RINGING"
  shows "of_int (pickup_delay_min u) \<le> after (invite_handler (fst (snd (handle_invite r (c, s)))))
       \<and> after (invite_handler (fst (snd (handle_invite r (c, s))))) \<le> of_int (pickup_delay_max u)
       \<and> active (invite_handler (fst (snd (handle_invite r (c, s)))))
       \<and> map status (sent (snd (snd (handle_invite r (c, s))))) = map status (sent s) @ [180]"
proof (cases "randint r (pickup_delay_min u) (pickup_delay_max u)")
  case (Inl e)
  with assms show ?thesis by (simp add: handle_invite_def)
next
  case (Inr d)
  then have "pickup_delay_min u \<le> d \<and> d \<le> pickup_delay_max u" by (rule randint_range)
  with assms Inr show ?thesis
    by (simp add: handle_invite_def send_def create_response_def)
qed

theorem C9_pickup_delay_in_window_witness:
  "state (new_call\<lparr>state := INVITE_TRYING\<rparr>) = INVITE_TRYING
   \<and> user (new_call\<lparr>state := INVITE_TRYING\<rparr>) = Some alice
   \<and> state (fst (snd (handle_invite 7 (new_call\<lparr>state := INVITE_TRYING\<rparr>, fresh_session))))
       = INVITE_RINGING
   \<and> 2 \<le> after (invite_handler
         (fst (snd (handle_invite 7 (new_call\<lparr>state := INVITE_TRYING\<rparr>, fresh_session)))))
   \<and> after (invite_handler
         (fst (snd (handle_invite 7 (new_call\<lparr>state := INVITE_TRYING\<rparr>, fresh_session))))) \<le> 5"
proof -
  let ?c = "new_call\<lparr>state := INVITE_TRYING\<rparr>"
  have a: "state ?c = INVITE_TRYING" by simp
  have b: "user ?c = Some alice" by (simp add: new_call_def)
  have c: "state (fst (snd (handle_invite 7 (?c, fresh_session)))) = INVITE_RINGING"
    by (simp add: handle_invite_def new_call_def alice_def randint_def)
  show ?thesis
    using C9_pickup_delay_in_window [OF a b c] a b c by (simp add: alice_def)
qed

subsection \<open>CANCEL\<close>

text \<open>
  Claim C3. In state INVITE, INVITE_TRYING or INVITE_RINGING, a CANCEL whose CSeq number
  is that of the INVITE stops the timer, sends 487 for the INVITE and then 200 for the
  CANCEL, these two responses and no other, and puts the call in state INVITE_CANCEL.
\<close>

theorem C3_cancel_matching_cseq:
  assumes "state c = INVITE \<or> state c = INVITE_TRYING \<or> state c = INVITE_RINGING"
    and "h_cseq (msg c) = Some q" and "h_cseq m = Some q'" and "seq q = seq q'"
  shows "SipCall_handle_CANCEL m (c, s) =
           (Inr (),
            c\<lparr>state := INVITE_CANCEL, invite_handler := (invite_handler c)\<lparr>active := False\<rparr>\<rparr>,
            s\<lparr>bistream := bistream s @ [Out (create_response (msg c) 487), Out (create_response m 200)],
              sent := sent s @ [create_response (msg c) 487, create_response m 200]\<rparr>)"
  using assms by (auto simp: SipCall_handle_CANCEL_def send_def)

theorem C3_cancel_matching_cseq_witness:
  "SipCall_handle_CANCEL (request_for_alice ''CANCEL'' 1)
     (new_call\<lparr>state := INVITE_RINGING, invite_handler := \<lparr>after = 3, active = True\<rparr>\<rparr>,
      fresh_session) =
   (Inr (),
    new_call\<lparr>state := INVITE_CANCEL, invite_handler := \<lparr>after = 3, active = False\<rparr>\<rparr>,
    fresh_session
      \<lparr>bistream := [Out (create_response invite_request 487),
                     Out (create_response (request_for_alice ''CANCEL'' 1) 200)],
       sent := [create_response invite_request 487,
                create_response (request_for_alice ''CANCEL'' 1) 200]\<rparr>)"
proof -
  let ?c = "new_call\<lparr>state := INVITE_RINGING, invite_handler := \<lparr>after = 3, active = True\<rparr>\<rparr>"
  have a: "state ?c = INVITE \<or> state ?c = INVITE_TRYING \<or> state ?c = INVITE_RINGING" by simp
  have b: "h_cseq (msg ?c) = Some \<lparr>seq = 1, cseq_method = ''INVITE''\<rparr>"
    by (simp add: new_call_def invite_request_def request_for_alice_def)
  have c: "h_cseq (request_for_alice ''CANCEL'' 1) = Some \<lparr>seq = 1, cseq_method = ''CANCEL''\<rparr>"
    by (simp add: request_for_alice_def)
  show ?thesis
    using C3_cancel_matching_cseq [OF a b c, of fresh_session]
    by (simp add: fresh_session_fields new_call_def)
qed

text \<open>
  The same through the session's handler: the call the dictionary holds is the
  cancelled one afterwards.
\<close>

lemma session_cancel_matching_cseq:
  assumes "state c = INVITE \<or> state c = INVITE_TRYING \<or> state c = INVITE_RINGING"
    and "h_cseq (msg c) = Some q" and "h_cseq m = Some q'" and "seq q = seq q'"
    and "h_call_id m = Some cid" and "callids s cid = Some c"
  shows "handle_CANCEL m s =
           (Inr (),
            (send (create_response m 200) (send (create_response (msg c) 487) s))
              \<lparr>callids := (callids s)
                 (cid \<mapsto> c\<lparr>state := INVITE_CANCEL,
                            invite_handler := (invite_handler c)\<lparr>active := False\<rparr>\<rparr>)\<rparr>)"
  using assms
  by (auto simp: handle_CANCEL_def SipCall_handle_CANCEL_def in_place_def send_def)

text \<open>
  Claim C8. A CANCEL whose CSeq number differs from that of the INVITE changes nothing,
  in any state of the call: the call (its state and its timer) and the session (nothing
  sent) are as before, for the method of the call and for the session's handler that
  finds the call by its Call-ID.
\<close>

theorem C8_cancel_other_cseq_noop:
  assumes "h_cseq (msg c) = Some q" and "h_cseq m = Some q'" and "seq q \<noteq> seq q'"
  shows "SipCall_handle_CANCEL m (c, s) = (Inr (), c, s)
       \<and> (h_call_id m = Some cid \<and> callids s cid = Some c \<longrightarrow> handle_CANCEL m s = (Inr (), s))"
  using assms by (auto simp: SipCall_handle_CANCEL_def handle_CANCEL_def in_place_def fun_upd_idem)

theorem C8_cancel_other_cseq_noop_witness:
  "SipCall_handle_CANCEL (request_for_alice ''CANCEL'' 2)
     (new_call\<lparr>state := INVITE_TRYING\<rparr>, session_with (new_call\<lparr>state := INVITE_TRYING\<rparr>))
     = (Inr (), new_call\<lparr>state := INVITE_TRYING\<rparr>,
        session_with (new_call\<lparr>state := INVITE_TRYING\<rparr>))
   \<and> handle_CANCEL (request_for_alice ''CANCEL'' 2)
       (session_with (new_call\<lparr>state := INVITE_TRYING\<rparr>))
     = (Inr (), session_with (new_call\<lparr>state := INVITE_TRYING\<rparr>))"
proof -
  let ?c = "new_call\<lparr>state := INVITE_TRYING\<rparr>"
  have b: "h_cseq (msg ?c) = Some \<lparr>seq = 1, cseq_method = ''INVITE''\<rparr>"
    by (simp add: new_call_def invite_request_def request_for_alice_def)
  have c: "h_cseq (request_for_alice ''CANCEL'' 2) = Some \<lparr>seq = 2, cseq_method = ''CANCEL''\<rparr>"
    by (simp add: request_for_alice_def)
  have d: "seq \<lparr>seq = 1, cseq_method = ''INVITE''\<rparr> \<noteq> seq \<lparr>seq = 2, cseq_method = ''CANCEL''\<rparr>"
    by simp
  have e: "h_call_id (request_for_alice ''CANCEL'' 2) = Some ''call-1''"
    by (simp add: request_for_alice_def)
  have f: "callids (session_with ?c) ''call-1'' = Some ?c"
    by (simp add: session_with_def)
  show ?thesis
    using C8_cancel_other_cseq_noop [OF b c d, of "session_with ?c" "''call-1''"] e f by simp
qed

subsection \<open>ACK\<close>

text \<open>
  Claim C10. For a call in state INVITE_CANCEL that the session holds under its Call-ID:
  an ACK whose CSeq number differs from that of the INVITE leaves the session as it is
  (the call stays in the dictionary, unchanged); the call leaves the dictionary exactly
  when the CSeq numbers are equal; and no ACK is answered with a response.
\<close>

theorem C10_ack_other_cseq_keeps_call:
  assumes "h_call_id m = Some cid" and "callids s cid = Some c" and "call_id c = cid"
    and "state c = INVITE_CANCEL" and "h_cseq (msg c) = Some q" and "h_cseq m = Some q'"
  shows "(seq q \<noteq> seq q' \<longrightarrow> handle_ACK m s = (Inr (), s))
       \<and> (callids (snd (handle_ACK m s)) cid = None) = (seq q = seq q')
       \<and> sent (snd (handle_ACK m s)) = sent s
       \<and> fst (handle_ACK m s) = Inr ()"
  using assms
  by (auto simp: handle_ACK_def SipCall_handle_ACK_def SipCall_close_def in_place_def fun_upd_idem)

theorem C10_ack_other_cseq_keeps_call_witness:
  "handle_ACK (request_for_alice ''ACK'' 2) (session_with (new_call\<lparr>state := INVITE_CANCEL\<rparr>))
     = (Inr (), session_with (new_call\<lparr>state := INVITE_CANCEL\<rparr>))
   \<and> callids (snd (handle_ACK (request_for_alice ''ACK'' 2)
                     (session_with (new_call\<lparr>state := INVITE_CANCEL\<rparr>)))) ''call-1'' \<noteq> None
   \<and> callids (snd (handle_ACK (request_for_alice ''ACK'' 1)
                     (session_with (new_call\<lparr>state := INVITE_CANCEL\<rparr>)))) ''call-1'' = None
   \<and> sent (snd (handle_ACK (request_for_alice ''ACK'' 1)
                  (session_with (new_call\<lparr>state := INVITE_CANCEL\<rparr>)))) = []"
proof -
  let ?c = "new_call\<lparr>state := INVITE_CANCEL\<rparr>"
  have a: "h_call_id (request_for_alice ''ACK'' n) = Some ''call-1''" for n
    by (simp add: request_for_alice_def)
  have b: "callids (session_with ?c) ''call-1'' = Some ?c" by (simp add: session_with_def)
  have c: "call_id ?c = ''call-1''" by (simp add: new_call_def)
  have d: "state ?c = INVITE_CANCEL" by simp
  have e: "h_cseq (msg ?c) = Some \<lparr>seq = 1, cseq_method = ''INVITE''\<rparr>"
    by (simp add: new_call_def invite_request_def request_for_alice_def)
  have f: "h_cseq (request_for_alice ''ACK'' n) = Some \<lparr>seq = n, cseq_method = ''ACK''\<rparr>" for n
    by (simp add: request_for_alice_def)
  have s: "sent (session_with ?c) = []" by (simp add: session_with_def fresh_session_fields)
  show ?thesis
    using C10_ack_other_cseq_keeps_call [OF a b c d e f, of 2]
      C10_ack_other_cseq_keeps_call [OF a b c d e f, of 1] s b
    by simp
qed

section \<open>Sessions\<close>

subsection \<open>The keys of the dictionary\<close>

text \<open>
  A new session holds no call, and every handler keeps each call under its own Call-ID:
  the third hypothesis of the theorem on ACK holds in every session the server runs.
\<close>

lemma send_callids: "callids (send r s) = callids s"
  by (simp add: send_def)

lemma call_method_results:
  "res \<in> {SipCall_handle_ACK m (c, s), SipCall_handle_BYE m (c, s), SipCall_handle_CANCEL m (c, s)}
   \<Longrightarrow> call_id (fst (snd res)) = call_id c
       \<and> (callids (snd (snd res)) = callids s
          \<or> callids (snd (snd res)) = (callids s)(call_id c := None))"
  by (auto simp: SipCall_handle_ACK_def SipCall_handle_BYE_def SipCall_handle_CANCEL_def
        SipCall_close_def send_callids split: option.splits)

lemma in_place_keyed:
  assumes "keyed s" and "callids s cid = Some c"
    and "call_id (fst (snd res)) = call_id c"
    and "callids (snd (snd res)) = callids s \<or> callids (snd (snd res)) = (callids s)(call_id c := None)"
  shows "keyed (snd (in_place cid res))"
proof -
  have cid: "call_id c = cid" using assms(1,2) by (simp add: keyed_def)
  from assms(4) show ?thesis
  proof
    assume "callids (snd (snd res)) = callids s"
    then show ?thesis using assms(1,2,3) cid
      by (auto simp: in_place_def keyed_def)
  next
    assume "callids (snd (snd res)) = (callids s)(call_id c := None)"
    then show ?thesis using assms(1) cid
      by (auto simp: in_place_def keyed_def split: if_splits)
  qed
qed

lemma SipCall_init_call_id:
  "SipCall_init cfg sess con p im = Inr c \<Longrightarrow> h_call_id im = Some (call_id c)"
  by (auto simp: SipCall_init_def split: option.splits)

lemma call_handlers_keyed:
  assumes "keyed s"
  shows "keyed (snd (handle_ACK m s))"
    and "keyed (snd (handle_BYE m s))"
    and "keyed (snd (handle_CANCEL m s))"
proof -
  have step: "keyed (snd (in_place cid res))"
    if "callids s cid = Some c"
      and "res \<in> {SipCall_handle_ACK m (c, s), SipCall_handle_BYE m (c, s),
                   SipCall_handle_CANCEL m (c, s)}" for cid c res
    using in_place_keyed [OF assms that(1)] call_method_results [OF that(2)] by blast
  show "keyed (snd (handle_ACK m s))"
    using assms step by (simp add: handle_ACK_def split: option.splits)
  show "keyed (snd (handle_BYE m s))"
    using assms step by (simp add: handle_BYE_def split: option.splits)
  show "keyed (snd (handle_CANCEL m s))"
    using assms step by (simp add: handle_CANCEL_def split: option.splits)
qed

lemma handle_INVITE_keyed:
  assumes "keyed s"
  shows "keyed (snd (handle_INVITE cfg m s))"
proof -
  have new: "keyed (s\<lparr>callids := (callids s)(cid \<mapsto> SipCall_handle_INVITE m c)\<rparr>)"
    if "SipCall_init cfg s con p m = Inr c" and "h_call_id m = Some cid" for con p c cid
    using assms SipCall_init_call_id [OF that(1)] that(2)
    by (auto simp: keyed_def SipCall_handle_INVITE_def)
  show ?thesis
    using assms new
    by (simp add: handle_INVITE_def split: option.splits sum.splits)
qed

lemma fresh_keyed: "keyed (SipSession_init pers key)"
  by (simp add: keyed_def SipSession_init_def split: prod.splits)

lemma handle_io_in_keyed:
  assumes "keyed s"
  shows "keyed (fst (snd (handle_io_in parse cfg chk data (s, reg))))"
proof -
  let ?s = "s\<lparr>bistream := bistream s @ [In data]\<rparr>"
  have k: "keyed ?s" using assms by (simp add: keyed_def)
  have r: "keyed (fst (snd (handle_REGISTER cfg chk m (?s, reg))))" for m
    using k
    by (auto simp: handle_REGISTER_def keyed_def unauthorized_def send_def Let_def
          split: option.splits auth_slot.splits)
  have o: "keyed (snd (handle_OPTIONS m ?s))" "keyed (snd (handle_unknown m ?s))" for m
    using k by (simp_all add: handle_OPTIONS_def handle_unknown_def keyed_def send_def)
  show ?thesis
    using k r o call_handlers_keyed [OF k] handle_INVITE_keyed [OF k]
    by (simp add: handle_io_in_def Let_def split: sum.splits)
qed

subsection \<open>A second INVITE for a Call-ID\<close>

text \<open>
  Claim C6. The dictionary maps a Call-ID to one call. An INVITE whose Call-ID the
  session already holds leaves the session as it is: no new call, no response, the held
  call unchanged. Through \<^verbatim>\<open>handle_io_in\<close> the one change is the datagram appended to the
  bistream.
\<close>

theorem C6_duplicate_invite_noop:
  assumes "h_call_id m = Some cid" and "callids s cid = Some c"
  shows "handle_INVITE cfg m s = (Inr (), s)
       \<and> (parse data = Inr m \<and> sip_method m = Some ''INVITE'' \<longrightarrow>
            handle_io_in parse cfg chk data (s, reg)
              = (Inr (length data), s\<lparr>bistream := bistream s @ [In data]\<rparr>, reg))"
proof -
  have a: "handle_INVITE cfg m s' = (Inr (), s')" if "callids s' cid = Some c" for s'
    using assms(1) that by (auto simp: handle_INVITE_def split: option.splits)
  have b: "callids (s\<lparr>bistream := bistream s @ [In data]\<rparr>) cid = Some c"
    using assms(2) by simp
  show ?thesis using a [OF assms(2)] a [OF b]
    by (simp add: handle_io_in_def)
qed

theorem C6_duplicate_invite_noop_witness:
  "h_call_id invite_request = Some ''call-1''
   \<and> callids (session_with (new_call\<lparr>state := INVITE_TRYING\<rparr>)) ''call-1''
       = Some (new_call\<lparr>state := INVITE_TRYING\<rparr>)
   \<and> handle_INVITE one_user invite_request (session_with (new_call\<lparr>state := INVITE_TRYING\<rparr>))
       = (Inr (), session_with (new_call\<lparr>state := INVITE_TRYING\<rparr>))
   \<and> handle_io_in (\<lambda>d. Inr invite_request) one_user (check colon_digest) ''INVITE sip:alice''
        (session_with (new_call\<lparr>state := INVITE_TRYING\<rparr>), Map.empty)
       = (Inr 16, (session_with (new_call\<lparr>state := INVITE_TRYING\<rparr>))
                    \<lparr>bistream := [In ''INVITE sip:alice'']\<rparr>, Map.empty)"
proof -
  let ?c = "new_call\<lparr>state := INVITE_TRYING\<rparr>"
  have a: "h_call_id invite_request = Some ''call-1''"
    by (simp add: invite_request_def request_for_alice_def)
  have b: "callids (session_with ?c) ''call-1'' = Some ?c" by (simp add: session_with_def)
  have m: "sip_method invite_request = Some ''INVITE''"
    by (simp add: invite_request_def request_for_alice_def)
  have s: "bistream (session_with ?c) = []" by (simp add: session_with_def fresh_session_fields)
  show ?thesis
    using C6_duplicate_invite_noop [OF a b, of one_user "\<lambda>d. Inr invite_request"
        "''INVITE sip:alice''" "check colon_digest" Map.empty] a b m s
    by simp
qed

subsection \<open>REGISTER\<close>

text \<open>
  The branches of \<^verbatim>\<open>handle_REGISTER\<close> for a user with a password, once the four
  headers and a Via header are there: no Authorization header; an Authorization header
  while \<^verbatim>\<open>_auth\<close> is still the list of \<^verbatim>\<open>__init__\<close>; a failed and a passed check
  against the stored challenge.
\<close>

lemma register_no_authorization:
  assumes "h_to m = Some uid" and "h_from m \<noteq> None" and "h_call_id m \<noteq> None"
    and "h_cseq m \<noteq> None" and "h_via m \<noteq> []"
    and "cfg (personality s) uid = Some u" and "password u \<noteq> None"
    and "h_authorization m = None"
  shows "handle_REGISTER cfg chk m (s, reg) = (Inr (), unauthorized (Str ''foobar123'') u m s, reg)"
  using assms by (auto simp: handle_REGISTER_def)

lemma register_on_list:
  assumes "h_to m = Some uid" and "h_from m \<noteq> None" and "h_call_id m \<noteq> None"
    and "h_cseq m \<noteq> None" and "h_via m \<noteq> []"
    and "cfg (personality s) uid = Some u" and "password u \<noteq> None"
    and "h_authorization m = Some resp" and "auth s = EmptyList"
  shows "handle_REGISTER cfg chk m (s, reg) = (Inl AttributeError, s, reg)"
  using assms by (auto simp: handle_REGISTER_def)

lemma register_check_fails:
  assumes "h_to m = Some uid" and "h_from m \<noteq> None" and "h_call_id m \<noteq> None"
    and "h_cseq m \<noteq> None" and "h_via m \<noteq> []"
    and "cfg (personality s) uid = Some u" and "password u \<noteq> None"
    and "h_authorization m = Some resp" and "auth s = Challenge a"
    and "\<not> chk a (username u) ''test'' ''REGISTER'' resp"
  shows "handle_REGISTER cfg chk m (s, reg) = (Inr (), unauthorized (Bytes ''foobar123'') u m s, reg)"
  using assms by (auto simp: handle_REGISTER_def)

lemma register_check_passes:
  assumes "h_to m = Some uid" and "h_from m \<noteq> None" and "h_call_id m \<noteq> None"
    and "h_cseq m \<noteq> None" and "h_via m \<noteq> []"
    and "cfg (personality s) uid = Some u" and "password u \<noteq> None"
    and "h_authorization m = Some resp" and "auth s = Challenge a"
    and "chk a (username u) ''test'' ''REGISTER'' resp"
  shows "handle_REGISTER cfg chk m (s, reg) =
           (Inr (), send (create_response m 200) s, register (User uid (last (h_via m))) reg)"
  using assms by (auto simp: handle_REGISTER_def)

lemma first_register:
  "handle_REGISTER one_user chk (register_request None) (fresh_session, reg) =
     (Inr (), unauthorized (Str ''foobar123'') alice (register_request None) fresh_session, reg)"
  by (rule register_no_authorization [where uid = "''alice''"])
     (simp_all add: register_request_headers alice_configured)

lemma first_register_auth:
  "auth (unauthorized (Str ''foobar123'') alice m s) = Challenge first_challenge"
  by (simp add: unauthorized_effect alice_configured first_challenge_def)

lemma wrong_answer_rejected:
  "\<not> check colon_digest
       \<lparr>auth_method = Str ''digest'', algorithm = Str ''md5'', nonce = n,
        auth_realm = ''example.org'', response = None\<rparr>
       ''alice'' ''test'' ''REGISTER'' (answer_with ''wrong'')"
  by (cases n) (simp_all add: check_def colon_digest_def answer_with_def)

lemma answer_checks:
  "check colon_digest first_challenge ''alice'' ''secret'' ''REGISTER'' (answer_with ''secret'')"
  "\<not> check colon_digest first_challenge ''alice'' ''test'' ''REGISTER'' (answer_with ''secret'')"
  "check colon_digest first_challenge ''alice'' ''test'' ''REGISTER'' (answer_with ''test'')"
  by (simp_all add: check_def colon_digest_def answer_with_def first_challenge_def)

text \<open>
  Claim C1, as the spec states it, fails: the nonces of consecutive challenges are not
  distinct. Three REGISTER requests on a new session, the second and third with an
  Authorization header that fails the check, are answered 401 three times; the
  challenge stored after the second and the one stored after the third carry the same
  nonce.
\<close>

theorem C1_nonce_repeats:
  "stored_nonce (fst (registers [register_request None,
                                 register_request (Some (answer_with ''wrong''))]
                        (fresh_session, Map.empty))) = Some (Bytes ''foobar123'')
   \<and> stored_nonce (fst (registers [register_request None,
                                   register_request (Some (answer_with ''wrong'')),
                                   register_request (Some (answer_with ''wrong''))]
                        (fresh_session, Map.empty)))
       = stored_nonce (fst (registers [register_request None,
                                       register_request (Some (answer_with ''wrong''))]
                              (fresh_session, Map.empty)))
   \<and> map status (sent (fst (registers [register_request None,
                                   register_request (Some (answer_with ''wrong'')),
                                   register_request (Some (answer_with ''wrong''))]
                        (fresh_session, Map.empty)))) = [401, 401, 401]"
proof -
  let ?m0 = "register_request None"
  let ?m1 = "register_request (Some (answer_with ''wrong''))"
  let ?chk = "check colon_digest"
  define s1 where "s1 = unauthorized (Str ''foobar123'') alice ?m0 fresh_session"
  define s2 where "s2 = unauthorized (Bytes ''foobar123'') alice ?m1 s1"
  define s3 where "s3 = unauthorized (Bytes ''foobar123'') alice ?m1 s2"
  have r1: "handle_REGISTER one_user ?chk ?m0 (fresh_session, Map.empty) = (Inr (), s1, Map.empty)"
    unfolding s1_def
    by (rule register_no_authorization [where uid = "''alice''"])
       (simp_all add: register_request_headers alice_configured)
  have a1: "auth s1 = Challenge \<lparr>auth_method = Str ''digest'', algorithm = Str ''md5'',
      nonce = Str ''foobar123'', auth_realm = ''example.org'', response = None\<rparr>"
    by (simp add: s1_def unauthorized_effect alice_configured)
  have r2: "handle_REGISTER one_user ?chk ?m1 (s1, Map.empty) = (Inr (), s2, Map.empty)"
    unfolding s2_def
    by (rule register_check_fails [where uid = "''alice''" and resp = "answer_with ''wrong''", OF _ _ _ _ _ _ _ _ a1])
       (simp_all add: register_request_headers alice_configured wrong_answer_rejected)
  have a2: "auth s2 = Challenge \<lparr>auth_method = Str ''digest'', algorithm = Str ''md5'',
      nonce = Bytes ''foobar123'', auth_realm = ''example.org'', response = None\<rparr>"
    by (simp add: s2_def unauthorized_effect alice_configured)
  have r3: "handle_REGISTER one_user ?chk ?m1 (s2, Map.empty) = (Inr (), s3, Map.empty)"
    unfolding s3_def
    by (rule register_check_fails [where uid = "''alice''" and resp = "answer_with ''wrong''", OF _ _ _ _ _ _ _ _ a2])
       (simp_all add: register_request_headers alice_configured wrong_answer_rejected)
  have a3: "auth s3 = Challenge \<lparr>auth_method = Str ''digest'', algorithm = Str ''md5'',
      nonce = Bytes ''foobar123'', auth_realm = ''example.org'', response = None\<rparr>"
    by (simp add: s3_def unauthorized_effect alice_configured)
  have sent3: "map status (sent s3) = [401, 401, 401]"
    by (simp add: s3_def s2_def s1_def unauthorized_effect create_response_def
          fresh_session_def SipSession_init_def)
  show ?thesis
    by (simp add: registers_def r1 r2 r3 stored_nonce_def a2 a3 sent3)
qed

text \<open>
  Claim C1, amended. After a REGISTER whose digest check fails, the session answers 401
  and replaces its stored challenge by a new one for the user's realm whose nonce is
  the constant \<^verbatim>\<open>b"foobar123"\<close>, the same at every such attempt; nothing is registered.
\<close>

theorem C1_rechallenge_has_fixed_nonce:
  assumes "h_to m = Some uid" and "h_from m \<noteq> None" and "h_call_id m \<noteq> None"
    and "h_cseq m \<noteq> None" and "h_via m \<noteq> []"
    and "cfg (personality s) uid = Some u" and "password u \<noteq> None"
    and "h_authorization m = Some resp" and "auth s = Challenge a"
    and "\<not> chk a (username u) ''test'' ''REGISTER'' resp"
  shows "fst (handle_REGISTER cfg chk m (s, reg)) = Inr ()
       \<and> auth (fst (snd (handle_REGISTER cfg chk m (s, reg)))) =
           Challenge \<lparr>auth_method = Str ''digest'', algorithm = Str ''md5'',
                      nonce = Bytes ''foobar123'', auth_realm = realm u, response = None\<rparr>
       \<and> stored_nonce (fst (snd (handle_REGISTER cfg chk m (s, reg)))) = Some (Bytes ''foobar123'')
       \<and> map status (sent (fst (snd (handle_REGISTER cfg chk m (s, reg))))) = map status (sent s) @ [401]
       \<and> snd (snd (handle_REGISTER cfg chk m (s, reg))) = reg"
  using assms
  by (auto simp: handle_REGISTER_def unauthorized_effect stored_nonce_def create_response_def)

theorem C1_rechallenge_has_fixed_nonce_witness:
  "auth (unauthorized (Str ''foobar123'') alice (register_request None) fresh_session)
     = Challenge first_challenge
   \<and> \<not> check colon_digest first_challenge (username alice) ''test'' ''REGISTER''
         (answer_with ''wrong'')
   \<and> stored_nonce (fst (snd (handle_REGISTER one_user (check colon_digest)
        (register_request (Some (answer_with ''wrong'')))
        (unauthorized (Str ''foobar123'') alice (register_request None) fresh_session,
         Map.empty)))) = Some (Bytes ''foobar123'')
   \<and> map status (sent (fst (snd (handle_REGISTER one_user (check colon_digest)
        (register_request (Some (answer_with ''wrong'')))
        (unauthorized (Str ''foobar123'') alice (register_request None) fresh_session,
         Map.empty))))) = [401, 401]"
proof -
  let ?s = "unauthorized (Str ''foobar123'') alice (register_request None) fresh_session"
  let ?m = "register_request (Some (answer_with ''wrong''))"
  have h: "h_to ?m = Some ''alice''" "h_from ?m \<noteq> None" "h_call_id ?m \<noteq> None"
    "h_cseq ?m \<noteq> None" "h_via ?m \<noteq> []" "h_authorization ?m = Some (answer_with ''wrong'')"
    by (simp_all add: register_request_headers)
  have u: "one_user (personality ?s) ''alice'' = Some alice" "password alice \<noteq> None"
    by (simp_all add: alice_configured)
  have a: "auth ?s = Challenge first_challenge" by (rule first_register_auth)
  have n: "\<not> check colon_digest first_challenge (username alice) ''test'' ''REGISTER''
         (answer_with ''wrong'')"
    by (simp add: check_def colon_digest_def answer_with_def first_challenge_def)
  have s: "map status (sent ?s) = [401]"
    by (simp add: unauthorized_effect create_response_def fresh_session_fields)
  show ?thesis
    using C1_rechallenge_has_fixed_nonce [where cfg = one_user and chk = "check colon_digest"
        and m = ?m and s = ?s and uid = "''alice''" and u = alice
        and resp = "answer_with ''wrong''" and a = first_challenge and reg = Map.empty,
        OF h(1) h(2) h(3) h(4) h(5) u(1) u(2) h(6) a n] a n s
    by simp
qed

text \<open>
  What \<^verbatim>\<open>handle_REGISTER\<close> does is the same whatever the configured password is, as
  long as there is one.
\<close>

lemma unauthorized_password:
  "unauthorized n (u\<lparr>password := x\<rparr>) m s = unauthorized n u m s"
  by (simp add: unauthorized_def)

lemma register_ignores_password_value:
  assumes "cfg (personality s) uid = Some u" and "password u = Some p"
    and "cfg' (personality s) uid = Some (u\<lparr>password := Some p'\<rparr>)"
    and "h_to m = Some uid"
  shows "handle_REGISTER cfg' chk m (s, reg) = handle_REGISTER cfg chk m (s, reg)"
  using assms
  by (simp add: handle_REGISTER_def unauthorized_password
        split: option.splits auth_slot.splits)

text \<open>
  Claim C4. The check is made against the stored challenge, but with the literal
  password \<^verbatim>\<open>"test"\<close> and not with the user's configured one. The user's password is
  \<open>secret\<close>: an Authorization header that answers the stored challenge with \<open>secret\<close>
  is answered 401 and the user is not registered, one that answers with \<open>test\<close> is
  answered 200 and the user is registered.
\<close>

theorem C4_check_uses_literal_test:
  "auth (fst (registers [register_request None] (fresh_session, Map.empty)))
     = Challenge first_challenge
   \<and> password alice = Some ''secret''
   \<and> check colon_digest first_challenge ''alice'' ''secret'' ''REGISTER'' (answer_with ''secret'')
   \<and> map status (sent (fst (registers [register_request None,
                                        register_request (Some (answer_with ''secret''))]
                               (fresh_session, Map.empty)))) = [401, 401]
   \<and> snd (registers [register_request None, register_request (Some (answer_with ''secret''))]
            (fresh_session, Map.empty)) ''alice'' = None
   \<and> map status (sent (fst (registers [register_request None,
                                        register_request (Some (answer_with ''test''))]
                               (fresh_session, Map.empty)))) = [401, 200]
   \<and> snd (registers [register_request None, register_request (Some (answer_with ''test''))]
            (fresh_session, Map.empty)) ''alice'' = Some [User ''alice'' (Some ''z9hG4bK-1'')]"
proof -
  let ?chk = "check colon_digest"
  define s1 where "s1 = unauthorized (Str ''foobar123'') alice (register_request None) fresh_session"
  have a1: "auth s1 = Challenge first_challenge"
    by (simp add: s1_def first_register_auth)
  have sent1: "map status (sent s1) = [401]"
    by (simp add: s1_def unauthorized_effect create_response_def fresh_session_def
          SipSession_init_def)
  have bad: "handle_REGISTER one_user ?chk (register_request (Some (answer_with ''secret'')))
               (s1, Map.empty) =
             (Inr (), unauthorized (Bytes ''foobar123'') alice
                        (register_request (Some (answer_with ''secret''))) s1, Map.empty)"
    by (rule register_check_fails [where uid = "''alice''" and resp = "answer_with ''secret''",
          OF _ _ _ _ _ _ _ _ a1])
       (simp_all add: register_request_headers alice_configured answer_checks)
  have good: "handle_REGISTER one_user ?chk (register_request (Some (answer_with ''test'')))
               (s1, Map.empty) =
             (Inr (), send (create_response (register_request (Some (answer_with ''test''))) 200) s1,
              register (User ''alice'' (last (h_via (register_request (Some (answer_with ''test''))))))
                Map.empty)"
    by (rule register_check_passes [where uid = "''alice''" and u = alice and resp = "answer_with ''test''",
          OF _ _ _ _ _ _ _ _ a1])
       (simp_all add: register_request_headers alice_configured answer_checks)
  have reg: "register (User ''alice'' (last (h_via (register_request (Some (answer_with ''test''))))))
                Map.empty ''alice'' = Some [User ''alice'' (Some ''z9hG4bK-1'')]"
    by (simp add: register_def User_def register_request_def request_for_alice_def)
  have w1: "registers [register_request None] (fresh_session, Map.empty) = (s1, Map.empty)"
    by (simp add: registers_def first_register s1_def)
  have w2: "registers [register_request None, register_request (Some (answer_with ''secret''))]
              (fresh_session, Map.empty) =
            (unauthorized (Bytes ''foobar123'') alice
               (register_request (Some (answer_with ''secret''))) s1, Map.empty)"
    by (simp add: registers_def first_register s1_def [symmetric] bad)
  have w3: "registers [register_request None, register_request (Some (answer_with ''test''))]
              (fresh_session, Map.empty) =
            (send (create_response (register_request (Some (answer_with ''test''))) 200) s1,
             register (User ''alice'' (last (h_via (register_request (Some (answer_with ''test''))))))
               Map.empty)"
    by (simp add: registers_def first_register s1_def [symmetric] good)
  have c4: "map status (sent (unauthorized (Bytes ''foobar123'') alice
               (register_request (Some (answer_with ''secret''))) s1)) = [401, 401]"
    using sent1 by (simp add: unauthorized_effect create_response_def)
  have c6: "map status (sent (send (create_response
               (register_request (Some (answer_with ''test''))) 200) s1)) = [401, 200]"
    using sent1 by (simp add: send_def create_response_def)
  show ?thesis
    unfolding w1 w2 w3 using a1 c4 c6 reg answer_checks(1) alice_configured(2) by simp
qed

text \<open>
  Claim C5. On a session that holds no challenge yet, \<^verbatim>\<open>_auth\<close> is the list \<^verbatim>\<open>[]\<close> of
  \<^verbatim>\<open>__init__\<close>, which the test \<^verbatim>\<open>self._auth == None\<close> does not catch: a REGISTER with an
  Authorization header for a user with a password raises \<^verbatim>\<open>AttributeError\<close> out of
  \<^verbatim>\<open>handle_REGISTER\<close> and out of \<^verbatim>\<open>handle_io_in\<close>; no 401 is sent and no challenge is
  stored.
\<close>

theorem C5_authorization_on_fresh_session_raises:
  "auth fresh_session = EmptyList
   \<and> handle_REGISTER one_user chk (register_request (Some a)) (fresh_session, reg)
       = (Inl AttributeError, fresh_session, reg)
   \<and> handle_io_in (\<lambda>d. Inr (register_request (Some a))) one_user chk data (fresh_session, reg)
       = (Inl AttributeError, fresh_session\<lparr>bistream := [In data]\<rparr>, reg)"
proof -
  have e: "auth s = EmptyList \<Longrightarrow> personality s = personality fresh_session \<Longrightarrow>
      handle_REGISTER one_user chk (register_request (Some a)) (s, reg) = (Inl AttributeError, s, reg)" for s
    by (rule register_on_list [where uid = "''alice''" and u = alice and resp = a])
       (simp_all add: register_request_headers alice_configured)
  have f: "auth fresh_session = EmptyList" "bistream fresh_session = []"
    by (simp_all add: fresh_session_def SipSession_init_def)
  have m: "sip_method (register_request (Some a)) = Some ''REGISTER''"
    by (simp add: register_request_def request_for_alice_def)
  show ?thesis
    using f e [of fresh_session] e [of "fresh_session\<lparr>bistream := [In data]\<rparr>"]
    by (simp add: handle_io_in_def m)
qed

subsection \<open>A datagram the parser rejects\<close>

text \<open>
  Claim C7. When the parser raises on a datagram, \<^verbatim>\<open>SipSession.handle_io_in\<close> has
  appended the datagram to the bistream and raises the same exception: it returns no
  length, sends nothing and changes nothing else; \<^verbatim>\<open>SipServer.handle_io_in\<close> raises it
  as well.
\<close>

theorem C7_parse_error_leaves_handler:
  assumes "parse data = Inl e"
  shows "handle_io_in parse cfg chk data (s, reg)
           = (Inl e, s\<lparr>bistream := bistream s @ [In data]\<rparr>, reg)
       \<and> fst (SipServer_handle_io_in pers parse cfg chk key data (sessions, reg)) = Inl e"
  using assms by (simp add: handle_io_in_def SipServer_handle_io_in_def Let_def split: option.splits)

theorem C7_parse_error_leaves_handler_witness:
  "handle_io_in (\<lambda>d. Inl SipParsingError) one_user (check colon_digest) ''garbage''
     (fresh_session, Map.empty)
     = (Inl SipParsingError, fresh_session\<lparr>bistream := [In ''garbage'']\<rparr>, Map.empty)
   \<and> fst (SipServer_handle_io_in (\<lambda>a. ''default'') (\<lambda>d. Inl SipParsingError) one_user
            (check colon_digest) (''10.0.0.1'', 5060, ''10.0.0.2'', 5062) ''garbage''
            (Map.empty, Map.empty)) = Inl SipParsingError"
proof -
  have p: "(\<lambda>d::string. Inl SipParsingError :: error + message) ''garbage'' = Inl SipParsingError"
    by simp
  show ?thesis
    using C7_parse_error_leaves_handler [OF p, where cfg = one_user and chk = "check colon_digest"
        and s = fresh_session and reg = Map.empty and pers = "\<lambda>a. ''default''"
        and key = "(''10.0.0.1'', 5060, ''10.0.0.2'', 5062)" and sessions = Map.empty]
    by (simp add: fresh_session_fields)
qed

end
